theory Spec2Isabelle
  imports Main "HOL-Library.Word" "HOL-Library.AList"
begin

section \<open>Primitive Go types\<close>

text \<open>
  A \<open>[]byte\<close> is a list of 8-bit words. A \<open>float64\<close> is only ever copied by the writer,
  never computed with, so it is represented by its IEEE-754 bit pattern; the zero value
  \<open>0.0\<close> is the pattern \<open>0\<close>. Values of type \<open>int64\<close>, \<open>int32\<close> and \<open>uint32\<close> that are only
  copied are integers; where the code computes on an \<open>int64\<close> the two's complement
  wrap-around is written out with \<open>wrap64\<close>. A nil slice and an empty slice are both the
  empty list.
\<close>

type_synonym byte = "8 word"
type_synonym float64 = "64 word"

definition wrap64 :: "int \<Rightarrow> int" where
  "wrap64 x = (x + 2 ^ 63) mod 2 ^ 64 - 2 ^ 63"

text \<open>Go's integer quotient \<open>a / b\<close> truncates towards zero.\<close>

definition quo :: "int \<Rightarrow> int \<Rightarrow> int" where
  "quo a b = (if (a < 0) = (b < 0) then \<bar>a\<bar> div \<bar>b\<bar> else - (\<bar>a\<bar> div \<bar>b\<bar>))"

text \<open>
  A call that dereferences a nil pointer panics instead of returning.
\<close>

datatype 'a outcome = Panics | Returns 'a

section \<open>The gathered metrics (package \<open>dto\<close>, client\_model)\<close>

text \<open>
  The generated protobuf structs hold optional scalars as pointers and are themselves
  passed by pointer; both are \<open>option\<close> here. Every generated getter is nil-safe: on a nil
  receiver or an unset field it returns the zero value.
\<close>

definition getter :: "'a \<Rightarrow> ('r \<Rightarrow> 'a option) \<Rightarrow> 'r option \<Rightarrow> 'a" where
  "getter zero field p =
     (case p of None \<Rightarrow> zero
      | Some r \<Rightarrow> (case field r of None \<Rightarrow> zero | Some v \<Rightarrow> v))"

definition slice_getter :: "('r \<Rightarrow> 'a list) \<Rightarrow> 'r option \<Rightarrow> 'a list" where
  "slice_getter field p = (case p of None \<Rightarrow> [] | Some r \<Rightarrow> field r)"

definition ptr_getter :: "('r \<Rightarrow> 'a option) \<Rightarrow> 'r option \<Rightarrow> 'a option" where
  "ptr_getter field p = (case p of None \<Rightarrow> None | Some r \<Rightarrow> field r)"

record dto_LabelPair =
  dto_LabelPair_Name :: "string option"
  dto_LabelPair_Value :: "string option"

definition LabelPair_GetName :: "dto_LabelPair option \<Rightarrow> string" where
  "LabelPair_GetName = getter [] dto_LabelPair_Name"

definition LabelPair_GetValue :: "dto_LabelPair option \<Rightarrow> string" where
  "LabelPair_GetValue = getter [] dto_LabelPair_Value"

text \<open>\<open>timestamppb.Timestamp\<close>: seconds (\<open>int64\<close>) and nanoseconds (\<open>int32\<close>) since the epoch.\<close>

record Timestamp =
  Timestamp_Seconds :: int
  Timestamp_Nanos :: int

definition Timestamp_GetSeconds :: "Timestamp option \<Rightarrow> int" where
  "Timestamp_GetSeconds x = (case x of None \<Rightarrow> 0 | Some t \<Rightarrow> Timestamp_Seconds t)"

definition Timestamp_GetNanos :: "Timestamp option \<Rightarrow> int" where
  "Timestamp_GetNanos x = (case x of None \<Rightarrow> 0 | Some t \<Rightarrow> Timestamp_Nanos t)"

record dto_Exemplar =
  dto_Exemplar_Label :: "dto_LabelPair option list"
  dto_Exemplar_Value :: "float64 option"
  dto_Exemplar_Timestamp :: "Timestamp option"

definition Exemplar_GetLabel :: "dto_Exemplar option \<Rightarrow> dto_LabelPair option list" where
  "Exemplar_GetLabel = slice_getter dto_Exemplar_Label"

definition Exemplar_GetValue :: "dto_Exemplar option \<Rightarrow> float64" where
  "Exemplar_GetValue = getter 0 dto_Exemplar_Value"

definition Exemplar_GetTimestamp :: "dto_Exemplar option \<Rightarrow> Timestamp option" where
  "Exemplar_GetTimestamp = ptr_getter dto_Exemplar_Timestamp"

record dto_Gauge =
  dto_Gauge_Value :: "float64 option"

record dto_Counter =
  dto_Counter_Value :: "float64 option"
  dto_Counter_Exemplar :: "dto_Exemplar option"
  dto_Counter_CreatedTimestamp :: "Timestamp option"

record dto_Untyped =
  dto_Untyped_Value :: "float64 option"

record dto_Summary =
  dto_Summary_SampleCount :: "int option"
  dto_Summary_SampleSum :: "float64 option"

record dto_BucketSpan =
  dto_BucketSpan_Offset :: "int option"
  dto_BucketSpan_Length :: "int option"

definition BucketSpan_GetOffset :: "dto_BucketSpan option \<Rightarrow> int" where
  "BucketSpan_GetOffset = getter 0 dto_BucketSpan_Offset"

definition BucketSpan_GetLength :: "dto_BucketSpan option \<Rightarrow> int" where
  "BucketSpan_GetLength = getter 0 dto_BucketSpan_Length"

text \<open>Of \<open>dto.Histogram\<close>, the fields that the writer reads.\<close>

record dto_Histogram =
  dto_Histogram_SampleSum :: "float64 option"
  dto_Histogram_CreatedTimestamp :: "Timestamp option"
  dto_Histogram_Schema :: "int option"
  dto_Histogram_ZeroThreshold :: "float64 option"
  dto_Histogram_NegativeSpan :: "dto_BucketSpan option list"
  dto_Histogram_NegativeDelta :: "int list"
  dto_Histogram_NegativeCount :: "float64 list"
  dto_Histogram_PositiveSpan :: "dto_BucketSpan option list"
  dto_Histogram_PositiveDelta :: "int list"
  dto_Histogram_PositiveCount :: "float64 list"
  dto_Histogram_Exemplars :: "dto_Exemplar option list"

record dto_Metric =
  dto_Metric_Label :: "dto_LabelPair option list"
  dto_Metric_Gauge :: "dto_Gauge option"
  dto_Metric_Counter :: "dto_Counter option"
  dto_Metric_Summary :: "dto_Summary option"
  dto_Metric_Untyped :: "dto_Untyped option"
  dto_Metric_Histogram :: "dto_Histogram option"
  dto_Metric_TimestampMs :: "int option"

definition Metric_GetTimestampMs :: "dto_Metric \<Rightarrow> int" where
  "Metric_GetTimestampMs m = getter 0 dto_Metric_TimestampMs (Some m)"

record dto_MetricFamily =
  dto_MetricFamily_Name :: "string option"
  dto_MetricFamily_Help :: "string option"
  dto_MetricFamily_Type :: "int option"
  dto_MetricFamily_Metric :: "dto_Metric option list"
  dto_MetricFamily_Unit :: "string option"

definition MetricFamily_GetName :: "dto_MetricFamily option \<Rightarrow> string" where
  "MetricFamily_GetName = getter [] dto_MetricFamily_Name"

definition MetricFamily_GetHelp :: "dto_MetricFamily option \<Rightarrow> string" where
  "MetricFamily_GetHelp = getter [] dto_MetricFamily_Help"

definition MetricFamily_GetType :: "dto_MetricFamily option \<Rightarrow> int" where
  "MetricFamily_GetType = getter 0 dto_MetricFamily_Type"

definition MetricFamily_GetUnit :: "dto_MetricFamily option \<Rightarrow> string" where
  "MetricFamily_GetUnit = getter [] dto_MetricFamily_Unit"

definition MetricFamily_GetMetric :: "dto_MetricFamily option \<Rightarrow> dto_Metric option list" where
  "MetricFamily_GetMetric = slice_getter dto_MetricFamily_Metric"

section \<open>The wire model (package \<open>prompb\<close>)\<close>

record prompb_Label =
  Label_Name :: string
  Label_Value :: string

record prompb_Sample =
  Sample_Value :: float64
  Sample_Timestamp :: int

record prompb_Exemplar =
  Exemplar_Labels :: "prompb_Label list"
  Exemplar_Value :: float64
  Exemplar_Timestamp :: int

record prompb_BucketSpan =
  BucketSpan_Offset :: int
  BucketSpan_Length :: int

text \<open>Of \<open>prompb.Histogram\<close>, the fields that the writer sets; the others stay zero.\<close>

record prompb_Histogram =
  Histogram_Sum :: float64
  Histogram_Schema :: int
  Histogram_ZeroThreshold :: float64
  Histogram_NegativeSpans :: "prompb_BucketSpan list"
  Histogram_NegativeDeltas :: "int list"
  Histogram_NegativeCounts :: "float64 list"
  Histogram_PositiveSpans :: "prompb_BucketSpan list"
  Histogram_PositiveDeltas :: "int list"
  Histogram_PositiveCounts :: "float64 list"
  Histogram_Timestamp :: int

record prompb_TimeSeries =
  TimeSeries_Labels :: "prompb_Label list"
  TimeSeries_Samples :: "prompb_Sample list"
  TimeSeries_Exemplars :: "prompb_Exemplar list"
  TimeSeries_Histograms :: "prompb_Histogram list"

record prompb_MetricMetadata =
  MetricMetadata_Type :: int
  MetricMetadata_MetricFamilyName :: string
  MetricMetadata_Help :: string
  MetricMetadata_Unit :: string

record prompb_WriteRequest =
  WriteRequest_Timeseries :: "prompb_TimeSeries list"
  WriteRequest_Metadata :: "prompb_MetricMetadata list"

section \<open>Timestamps (\<open>timestamppb\<close> and package \<open>time\<close>)\<close>

text \<open>
  A \<open>time.Time\<close> is the instant it denotes: seconds since the Unix epoch and nanoseconds
  within that second. \<open>time.Unix\<close> normalises a nanosecond count outside \<open>[0, 10\<^sup>9)\<close>;
  \<open>AsTime\<close> is \<open>time.Unix(x.GetSeconds(), x.GetNanos()).UTC()\<close>, and \<open>UnixMilli\<close> is
  \<open>sec * 1e3 + nsec / 1e6\<close> on \<open>int64\<close>.
\<close>

record Time =
  Time_sec :: int
  Time_nsec :: int

definition time_Unix :: "int \<Rightarrow> int \<Rightarrow> Time" where
  "time_Unix sec nsec =
     (if nsec < 0 \<or> nsec \<ge> 1000000000 then
        (let n = quo nsec 1000000000;
             sec1 = wrap64 (sec + n);
             nsec1 = nsec - n * 1000000000
         in if nsec1 < 0
            then \<lparr>Time_sec = wrap64 (sec1 - 1), Time_nsec = nsec1 + 1000000000\<rparr>
            else \<lparr>Time_sec = sec1, Time_nsec = nsec1\<rparr>)
      else \<lparr>Time_sec = sec, Time_nsec = nsec\<rparr>)"

definition AsTime :: "Timestamp option \<Rightarrow> Time" where
  "AsTime x = time_Unix (Timestamp_GetSeconds x) (Timestamp_GetNanos x)"

definition UnixMilli :: "Time \<Rightarrow> int" where
  "UnixMilli t = wrap64 (Time_sec t * 1000 + quo (Time_nsec t) 1000000)"

section \<open>The wire model adapter (\<open>impl.go\<close>)\<close>

text \<open>\<open>slices.Map\<close> applies a function to every element of a slice, in order.\<close>

definition slices_Map :: "'a list \<Rightarrow> ('a \<Rightarrow> 'b) \<Rightarrow> 'b list" where
  "slices_Map xs f = map f xs"

definition convertLabels :: "dto_LabelPair option list \<Rightarrow> prompb_Label list" where
  "convertLabels dtoLabels =
     slices_Map dtoLabels
       (\<lambda>lp. \<lparr>Label_Name = LabelPair_GetName lp, Label_Value = LabelPair_GetValue lp\<rparr>)"

definition convertExemplar :: "dto_Exemplar option \<Rightarrow> prompb_Exemplar" where
  "convertExemplar e =
     \<lparr>Exemplar_Labels = convertLabels (Exemplar_GetLabel e),
      Exemplar_Value = Exemplar_GetValue e,
      Exemplar_Timestamp = UnixMilli (AsTime (Exemplar_GetTimestamp e))\<rparr>"

definition convertBucketSpans :: "dto_BucketSpan option list \<Rightarrow> prompb_BucketSpan list" where
  "convertBucketSpans spans =
     slices_Map spans
       (\<lambda>s. \<lparr>BucketSpan_Offset = BucketSpan_GetOffset s,
             BucketSpan_Length = BucketSpan_GetLength s\<rparr>)"

text \<open>
  The dynamic value of \<open>samplerMetric any\<close>: a pointer to a gauge, a counter or an untyped
  value. The type assertions \<open>samplerMetric.(valued)\<close> and \<open>samplerMetric.(hasExemplar)\<close>
  succeed when the method set of the dynamic type has \<open>GetValue() float64\<close>, respectively
  \<open>GetExemplar() *dto.Exemplar\<close>: all three types have the former, only \<open>*dto.Counter\<close>
  has the latter. An assertion that succeeds yields the result of calling the method.
\<close>

datatype sampler = GaugePtr dto_Gauge | CounterPtr dto_Counter | UntypedPtr dto_Untyped

fun valued :: "sampler \<Rightarrow> float64 option" where
  "valued (GaugePtr g) = Some (getter 0 dto_Gauge_Value (Some g))"
| "valued (CounterPtr c) = Some (getter 0 dto_Counter_Value (Some c))"
| "valued (UntypedPtr u) = Some (getter 0 dto_Untyped_Value (Some u))"

fun hasExemplar :: "sampler \<Rightarrow> dto_Exemplar option option" where
  "hasExemplar (GaugePtr g) = None"
| "hasExemplar (CounterPtr c) = Some (dto_Counter_Exemplar c)"
| "hasExemplar (UntypedPtr u) = None"

text \<open>The \<open>switch\<close> of \<open>getTimeseries\<close>: the first case that holds, in source order.\<close>

definition payload :: "dto_Metric \<Rightarrow> sampler option \<times> dto_Histogram option" where
  "payload metric =
     (case dto_Metric_Gauge metric of Some g \<Rightarrow> (Some (GaugePtr g), None)
      | None \<Rightarrow>
     (case dto_Metric_Counter metric of Some c \<Rightarrow> (Some (CounterPtr c), None)
      | None \<Rightarrow>
     (case dto_Metric_Untyped metric of Some u \<Rightarrow> (Some (UntypedPtr u), None)
      | None \<Rightarrow>
     (case dto_Metric_Histogram metric of Some h \<Rightarrow> (None, Some h)
      | None \<Rightarrow> (None, None)))))"

definition Histogram_GetCreatedTimestamp :: "dto_Histogram \<Rightarrow> Timestamp option" where
  "Histogram_GetCreatedTimestamp h = ptr_getter dto_Histogram_CreatedTimestamp (Some h)"

definition convertHistogram :: "dto_Histogram \<Rightarrow> prompb_Histogram" where
  "convertHistogram histogram =
     \<lparr>Histogram_Sum = getter 0 dto_Histogram_SampleSum (Some histogram),
      Histogram_Schema = getter 0 dto_Histogram_Schema (Some histogram),
      Histogram_ZeroThreshold = getter 0 dto_Histogram_ZeroThreshold (Some histogram),
      Histogram_NegativeSpans = convertBucketSpans (dto_Histogram_NegativeSpan histogram),
      Histogram_NegativeDeltas = dto_Histogram_NegativeDelta histogram,
      Histogram_NegativeCounts = dto_Histogram_NegativeCount histogram,
      Histogram_PositiveSpans = convertBucketSpans (dto_Histogram_PositiveSpan histogram),
      Histogram_PositiveDeltas = dto_Histogram_PositiveDelta histogram,
      Histogram_PositiveCounts = dto_Histogram_PositiveCount histogram,
      Histogram_Timestamp = UnixMilli (AsTime (Histogram_GetCreatedTimestamp histogram))\<rparr>"

text \<open>The body of the loop of \<open>getTimeseries\<close>, for one non-nil \<open>metric\<close>.\<close>

definition timeseries_of :: "dto_MetricFamily option \<Rightarrow> dto_Metric \<Rightarrow> prompb_TimeSeries" where
  "timeseries_of family metric =
     (let prompbLabels = convertLabels (dto_Metric_Label metric) @
            [\<lparr>Label_Name = ''__name__'', Label_Value = MetricFamily_GetName family\<rparr>];
          (samplerMetric, histogram) = payload metric;
          (samples, exemplars) =
            (case samplerMetric of
               None \<Rightarrow> ([], [])
             | Some s \<Rightarrow>
                 ((case valued s of
                     Some v \<Rightarrow> [\<lparr>Sample_Value = v,
                                 Sample_Timestamp = Metric_GetTimestampMs metric\<rparr>]
                   | None \<Rightarrow> []),
                  (case hasExemplar s of
                     Some e \<Rightarrow> [convertExemplar e]
                   | None \<Rightarrow> [])));
          (samples, exemplars, histograms) =
            (case histogram of
               None \<Rightarrow> (samples, exemplars, [])
             | Some h \<Rightarrow>
                 ([], slices_Map (dto_Histogram_Exemplars h) convertExemplar,
                  [convertHistogram h]))
      in \<lparr>TimeSeries_Labels = prompbLabels,
          TimeSeries_Samples = samples,
          TimeSeries_Exemplars = exemplars,
          TimeSeries_Histograms = histograms\<rparr>)"

text \<open>
  \<open>ts := make([]prompb.TimeSeries, n)\<close> holds \<open>n\<close> zero values, and the loop stores the
  series of the \<open>i\<close>-th metric at \<open>ts[i]\<close>. The loop reads \<open>metric.Label\<close> without a nil
  check: a nil element of the metric slice makes the call panic.
\<close>

definition zero_TimeSeries :: prompb_TimeSeries where
  "zero_TimeSeries =
     \<lparr>TimeSeries_Labels = [], TimeSeries_Samples = [],
      TimeSeries_Exemplars = [], TimeSeries_Histograms = []\<rparr>"

fun timeseries_loop ::
  "dto_MetricFamily option \<Rightarrow> nat \<Rightarrow> dto_Metric option list
     \<Rightarrow> prompb_TimeSeries list \<Rightarrow> prompb_TimeSeries list outcome" where
  "timeseries_loop family i [] ts = Returns ts"
| "timeseries_loop family i (None # metrics) ts = Panics"
| "timeseries_loop family i (Some metric # metrics) ts =
     timeseries_loop family (Suc i) metrics (ts[i := timeseries_of family metric])"

definition getTimeseries :: "dto_MetricFamily option \<Rightarrow> prompb_TimeSeries list outcome" where
  "getTimeseries family =
     (if MetricFamily_GetMetric family = [] then Returns []
      else timeseries_loop family 0 (MetricFamily_GetMetric family)
             (replicate (length (MetricFamily_GetMetric family)) zero_TimeSeries))"

section \<open>Errors\<close>

text \<open>
  The two sentinels of \<open>constants.go\<close>, the errors made with \<open>fmt.Errorf\<close>, and the errors
  that a collaborator returns, each with its message.
\<close>

datatype error = ErrNilContext | ErrNoGatherersDefined | Errorf string | Foreign string

fun Error :: "error \<Rightarrow> string" where
  "Error ErrNilContext = ''nil context passed''"
| "Error ErrNoGatherersDefined = ''no gatherers were defined''"
| "Error (Errorf msg) = msg"
| "Error (Foreign msg) = msg"

text \<open>The verb \<open>%d\<close> of package \<open>fmt\<close>: decimal digits, with a minus sign when negative.\<close>

function decimal :: "nat \<Rightarrow> string" where
  "decimal n =
     (if n < 10 then [''0123456789'' ! n]
      else decimal (n div 10) @ [''0123456789'' ! (n mod 10)])"
  by pat_completeness auto
termination
  by (relation "measure id") auto

definition fmt_d :: "int \<Rightarrow> string" where
  "fmt_d i = (if i < 0 then CHR ''-'' # decimal (nat (- i)) else decimal (nat i))"

section \<open>HTTP requests and responses (package \<open>net/http\<close>)\<close>

text \<open>
  A header maps a key to its values; \<open>Add\<close> appends a value, \<open>Set\<close> replaces the values.
  The three keys that the writer uses are in canonical form already.
\<close>

type_synonym Header = "(string \<times> string list) list"

definition Header_Add :: "Header \<Rightarrow> string \<Rightarrow> string \<Rightarrow> Header" where
  "Header_Add h key v =
     AList.update key ((case map_of h key of None \<Rightarrow> [] | Some vs \<Rightarrow> vs) @ [v]) h"

definition Header_Set :: "Header \<Rightarrow> string \<Rightarrow> string \<Rightarrow> Header" where
  "Header_Set h key v = AList.update key [v] h"

record 'ctx Request =
  Request_ctx :: 'ctx
  Request_Method :: string
  Request_URL :: string
  Request_Header :: Header
  Request_Body :: "byte list"

record Response =
  Response_StatusCode :: int
  Response_Status :: string

section \<open>Collaborators\<close>

text \<open>
  What the writer calls outside this repository, as parameters: the merged
  \<open>Gather\<close> of the configured gatherers, the two encoders of a write request, the Snappy
  block encoder (its Go signature has no error result), the DEFLATE compressor behind
  \<open>gzip.Writer\<close> (the blocks it hands to the underlying writer during \<open>Write\<close> and during
  \<open>Close\<close>, given the data written), the gzip header and trailer, and the URL parser
  whose failure is the only one \<open>http.NewRequestWithContext\<close> has for a non-nil context
  and the method \<open>POST\<close>.
\<close>

record 'g world =
  Gatherers_Gather :: "'g list \<Rightarrow> error + dto_MetricFamily option list"
  WriteRequest_Marshal :: "prompb_WriteRequest \<Rightarrow> error + byte list"
  json_Marshal :: "prompb_WriteRequest \<Rightarrow> error + byte list"
  snappy_Encode :: "byte list \<Rightarrow> byte list"
  flate_Write :: "byte list \<Rightarrow> byte list list"
  flate_Close :: "byte list \<Rightarrow> byte list list"
  gzip_header :: "byte list"
  gzip_trailer :: "byte list \<Rightarrow> byte list"
  url_Parse :: "string \<Rightarrow> error option"

definition http_NewRequestWithContext ::
  "'g world \<Rightarrow> 'ctx \<Rightarrow> string \<Rightarrow> string \<Rightarrow> byte list \<Rightarrow> error + 'ctx Request" where
  "http_NewRequestWithContext W ctx method url body =
     (case url_Parse W url of
        Some err \<Rightarrow> Inl err
      | None \<Rightarrow> Inr \<lparr>Request_ctx = ctx, Request_Method = method, Request_URL = url,
                      Request_Header = [], Request_Body = body\<rparr>)"

section \<open>Writing gzip into a \<open>bytes.Buffer\<close> (packages \<open>bytes\<close> and \<open>compress/gzip\<close>)\<close>

text \<open>
  \<open>(*bytes.Buffer).Write\<close> appends to the buffer, and its error result is always nil.
\<close>

definition Buffer_Write :: "byte list \<Rightarrow> byte list \<Rightarrow> byte list \<times> error option" where
  "Buffer_Write buf p = (buf @ p, None)"

text \<open>
  A \<open>gzip.Writer\<close> over a buffer: the buffer, whether the header has been written, and
  the sticky error. \<open>gzip.NewWriter\<close> leaves the header fields \<open>Extra\<close>, \<open>Name\<close> and \<open>Comment\<close>
  empty and takes the default compression level, so \<open>Write\<close> writes the ten header bytes
  on its first call and then the compressor's blocks, each through the \<open>Write\<close> of the
  underlying writer, and stops at the first error of such a write. \<open>Close\<close> writes the
  remaining blocks and the trailer in the same way.
\<close>

record gzip_Writer =
  Writer_w :: "byte list"
  Writer_wroteHeader :: bool
  Writer_err :: "error option"

definition gzip_NewWriter :: "byte list \<Rightarrow> gzip_Writer" where
  "gzip_NewWriter buf = \<lparr>Writer_w = buf, Writer_wroteHeader = False, Writer_err = None\<rparr>"

fun write_blocks :: "gzip_Writer \<Rightarrow> byte list list \<Rightarrow> gzip_Writer" where
  "write_blocks z [] = z"
| "write_blocks z (b # bs) =
     (case Writer_err z of
        Some err \<Rightarrow> z
      | None \<Rightarrow>
          (let (buf, err) = Buffer_Write (Writer_w z) b
           in write_blocks (z\<lparr>Writer_w := buf, Writer_err := err\<rparr>) bs))"

definition gzip_Write :: "'g world \<Rightarrow> gzip_Writer \<Rightarrow> byte list \<Rightarrow> gzip_Writer \<times> error option" where
  "gzip_Write W z p =
     (case Writer_err z of
        Some err \<Rightarrow> (z, Some err)
      | None \<Rightarrow>
          (let z1 = (if Writer_wroteHeader z then z
                     else write_blocks (z\<lparr>Writer_wroteHeader := True\<rparr>) [gzip_header W])
           in case Writer_err z1 of
                Some err \<Rightarrow> (z1, Some err)
              | None \<Rightarrow>
                  (let z2 = write_blocks z1 (flate_Write W p) in (z2, Writer_err z2))))"

definition gzip_Close :: "'g world \<Rightarrow> gzip_Writer \<Rightarrow> byte list \<Rightarrow> gzip_Writer" where
  "gzip_Close W z p =
     (case Writer_err z of
        Some err \<Rightarrow> z
      | None \<Rightarrow> write_blocks z (flate_Close W p @ [gzip_trailer W p]))"

section \<open>Format and Compression (\<open>writer.go\<close>, \<open>outputs.go\<close>)\<close>

text \<open>Both are named integer types, so a value outside the named constants can occur.\<close>

definition Protobuf :: int where "Protobuf = 1"
definition JSON :: int where "JSON = 2"

definition None_Compression :: int where "None_Compression = 0"
definition Snappy :: int where "Snappy = 1"
definition Gzip :: int where "Gzip = 2"

definition Format_String :: "int \<Rightarrow> string" where
  "Format_String f =
     (if f = Protobuf then ''protobuf''
      else if f = JSON then ''json''
      else ''%INVALID!('' @ fmt_d f @ '')'')"

definition Format_Marshal :: "'g world \<Rightarrow> int \<Rightarrow> prompb_WriteRequest \<Rightarrow> error + byte list" where
  "Format_Marshal W f wr =
     (if f = Protobuf then WriteRequest_Marshal W wr
      else if f = JSON then json_Marshal W wr
      else Inl (Errorf (''unrecognized format '' @ Format_String f)))"

definition Format_UpdateRequest :: "int \<Rightarrow> 'ctx Request \<Rightarrow> 'ctx Request" where
  "Format_UpdateRequest f req =
     (let contentType =
            (if f = Protobuf then ''application/x-protobuf''
             else if f = JSON then ''application/json''
             else ''application/octet-stream'')
      in req\<lparr>Request_Header := Header_Set (Request_Header req) ''Content-Type'' contentType\<rparr>)"

definition Compression_String :: "int \<Rightarrow> string" where
  "Compression_String e =
     (if e = None_Compression then ''none''
      else if e = Snappy then ''snappy''
      else if e = Gzip then ''gzip''
      else ''%INVALID!('' @ fmt_d e @ '')'')"

definition Compress :: "'g world \<Rightarrow> int \<Rightarrow> byte list \<Rightarrow> error + byte list" where
  "Compress W e data =
     (if e = None_Compression then Inr data
      else if e = Snappy then Inr (snappy_Encode W data)
      else if e = Gzip then
        (let buf = [];
             w = gzip_NewWriter buf;
             (w, err) = gzip_Write W w data
         in case err of
              Some err \<Rightarrow> Inl err
            | None \<Rightarrow> Inr (Writer_w (gzip_Close W w data)))
      else Inl (Errorf (''unsupported encoding '' @ Compression_String e)))"

definition Compression_UpdateRequest :: "int \<Rightarrow> 'ctx Request \<Rightarrow> 'ctx Request" where
  "Compression_UpdateRequest e req =
     (if e \<noteq> None_Compression
      then req\<lparr>Request_Header :=
                 Header_Set (Request_Header req) ''Content-Encoding'' (Compression_String e)\<rparr>
      else req)"

section \<open>The write orchestrator (\<open>impl.go\<close>)\<close>

text \<open>
  The HTTP client of a writer is its transport: what \<open>hc.Do\<close> answers to a request.
\<close>

record ('g, 'ctx) writerImpl =
  hc :: "'ctx Request \<Rightarrow> error + Response"
  targetURL :: string
  gatherers :: "'g list"
  format :: int
  encoding :: int
  version :: string

text \<open>
  The calls that leave the writer, in the order made: \<open>WriteMetrics\<close> returns them beside
  its result.
\<close>

datatype 'ctx event =
    Ev_Gather
  | Ev_Marshal prompb_WriteRequest
  | Ev_Compress "byte list"
  | Ev_NewRequest
  | Ev_Do "'ctx Request" "error + Response"
  | Ev_BodyClose

definition metadata_of :: "dto_MetricFamily option \<Rightarrow> prompb_MetricMetadata" where
  "metadata_of metricsFamily =
     \<lparr>MetricMetadata_Type = MetricFamily_GetType metricsFamily,
      MetricMetadata_MetricFamilyName = MetricFamily_GetName metricsFamily,
      MetricMetadata_Help = MetricFamily_GetHelp metricsFamily,
      MetricMetadata_Unit = MetricFamily_GetUnit metricsFamily\<rparr>"

fun families_loop ::
  "prompb_TimeSeries list \<Rightarrow> prompb_MetricMetadata list \<Rightarrow> dto_MetricFamily option list
     \<Rightarrow> (prompb_TimeSeries list \<times> prompb_MetricMetadata list) outcome" where
  "families_loop ts metadata [] = Returns (ts, metadata)"
| "families_loop ts metadata (metricsFamily # rest) =
     (case getTimeseries metricsFamily of
        Panics \<Rightarrow> Panics
      | Returns series \<Rightarrow>
          families_loop (ts @ series) (metadata @ [metadata_of metricsFamily]) rest)"

definition WriteMetrics ::
  "'g world \<Rightarrow> ('g, 'ctx) writerImpl \<Rightarrow> 'ctx option
     \<Rightarrow> 'ctx event list \<times> (int \<times> error option) outcome" where
  "WriteMetrics W w ctx =
     (case ctx of
        None \<Rightarrow> ([], Returns (0, Some ErrNilContext))
      | Some c \<Rightarrow>
     if length (gatherers w) = 0 then ([], Returns (0, Some ErrNoGatherersDefined))
     else
     (case Gatherers_Gather W (gatherers w) of
        Inl err \<Rightarrow> ([Ev_Gather], Returns (0, Some err))
      | Inr metricFamilies \<Rightarrow>
     if length metricFamilies = 0 then ([Ev_Gather], Returns (0, None))
     else
     (case families_loop [] [] metricFamilies of
        Panics \<Rightarrow> ([Ev_Gather], Panics)
      | Returns (ts, metadata) \<Rightarrow>
     (let wr = \<lparr>WriteRequest_Timeseries = ts, WriteRequest_Metadata = metadata\<rparr>;
          t1 = [Ev_Gather, Ev_Marshal wr]
      in case Format_Marshal W (format w) wr of
        Inl err \<Rightarrow> (t1, Returns (0, Some err))
      | Inr uncompressed \<Rightarrow>
     (let t2 = t1 @ [Ev_Compress uncompressed]
      in case Compress W (encoding w) uncompressed of
        Inl err \<Rightarrow> (t2, Returns (0, Some err))
      | Inr compressed \<Rightarrow>
     (let t3 = t2 @ [Ev_NewRequest]
      in case http_NewRequestWithContext W c ''POST'' (targetURL w) compressed of
        Inl err \<Rightarrow> (t3, Returns (0, Some err))
      | Inr req \<Rightarrow>
     (let req = req\<lparr>Request_Header :=
                  Header_Add (Request_Header req) ''X-Prometheus-Remote-Write-Version''
                    (version w)\<rparr>;
          req = Format_UpdateRequest (format w) req;
          req = Compression_UpdateRequest (encoding w) req
      in case hc w req of
        Inl err \<Rightarrow> (t3 @ [Ev_Do req (Inl err)], Returns (0, Some err))
      | Inr resp \<Rightarrow>
     (let t4 = t3 @ [Ev_Do req (Inr resp), Ev_BodyClose]
      in if Response_StatusCode resp < 200 \<or> Response_StatusCode resp > 299
         then (t4, Returns (0, Some (Errorf (''expected 2xx HTTP code, but got '' @
                                               Response_Status resp))))
         else (t4, Returns (int (length ts), None))))))))))"

section \<open>Example inputs\<close>

text \<open>
  The three metrics of \<open>writer_test.go\<close>: a counter at 0.5 (\<open>foo_bar_baz\<close>), a gauge at 1.0
  with two constant labels (\<open>foo_bar_wbbl\<close>) and a histogram with one observation of 0.35
  (\<open>foo_hist_testhist\<close>), as a registry gathers them, with the bit patterns of the three
  floating-point numbers.
\<close>

definition test_labels :: "dto_LabelPair option list" where
  "test_labels =
     [Some \<lparr>dto_LabelPair_Name = Some ''label1'', dto_LabelPair_Value = Some ''value1''\<rparr>,
      Some \<lparr>dto_LabelPair_Name = Some ''label2'', dto_LabelPair_Value = Some ''value2''\<rparr>]"

definition empty_Metric :: dto_Metric where
  "empty_Metric =
     \<lparr>dto_Metric_Label = [], dto_Metric_Gauge = None, dto_Metric_Counter = None,
      dto_Metric_Summary = None, dto_Metric_Untyped = None, dto_Metric_Histogram = None,
      dto_Metric_TimestampMs = None\<rparr>"

definition test_counter :: dto_Metric where
  "test_counter = empty_Metric
     \<lparr>dto_Metric_Counter :=
        Some \<lparr>dto_Counter_Value = Some 0x3FE0000000000000, dto_Counter_Exemplar = None,
              dto_Counter_CreatedTimestamp =
                Some \<lparr>Timestamp_Seconds = 1700000000, Timestamp_Nanos = 0\<rparr>\<rparr>\<rparr>"

definition test_gauge :: dto_Metric where
  "test_gauge = empty_Metric
     \<lparr>dto_Metric_Label := test_labels,
      dto_Metric_Gauge := Some \<lparr>dto_Gauge_Value = Some 0x3FF0000000000000\<rparr>\<rparr>"

definition test_histogram :: dto_Metric where
  "test_histogram = empty_Metric
     \<lparr>dto_Metric_Label := test_labels,
      dto_Metric_Histogram :=
        Some \<lparr>dto_Histogram_SampleSum = Some 0x3FD6666666666666,
              dto_Histogram_CreatedTimestamp =
                Some \<lparr>Timestamp_Seconds = 1700000000, Timestamp_Nanos = 123456789\<rparr>,
              dto_Histogram_Schema = None, dto_Histogram_ZeroThreshold = None,
              dto_Histogram_NegativeSpan = [], dto_Histogram_NegativeDelta = [],
              dto_Histogram_NegativeCount = [], dto_Histogram_PositiveSpan = [],
              dto_Histogram_PositiveDelta = [], dto_Histogram_PositiveCount = [],
              dto_Histogram_Exemplars = []\<rparr>\<rparr>"

definition test_family :: "string \<Rightarrow> int \<Rightarrow> dto_Metric option list \<Rightarrow> dto_MetricFamily option" where
  "test_family name type metrics =
     Some \<lparr>dto_MetricFamily_Name = Some name, dto_MetricFamily_Help = None,
           dto_MetricFamily_Type = Some type, dto_MetricFamily_Metric = metrics,
           dto_MetricFamily_Unit = None\<rparr>"

definition test_families :: "dto_MetricFamily option list" where
  "test_families =
     [test_family ''foo_bar_baz'' 0 [Some test_counter],
      test_family ''foo_bar_wbbl'' 1 [Some test_gauge],
      test_family ''foo_hist_testhist'' 4 [Some test_histogram]]"

text \<open>
  A world for them: one registry that gathers \<open>fams\<close>, encoders and a compressor that
  stand for the real ones (every result is a short fixed byte string), and a URL parser
  that accepts every URL. The writer is the one of the second test (JSON, gzip); its
  transport answers every request with the given status.
\<close>

definition test_world :: "dto_MetricFamily option list \<Rightarrow> unit world" where
  "test_world fams =
     \<lparr>Gatherers_Gather = (\<lambda>gs. Inr fams),
      WriteRequest_Marshal = (\<lambda>wr. Inr [1]),
      json_Marshal = (\<lambda>wr. Inr [2]),
      snappy_Encode = (\<lambda>data. 3 # data),
      flate_Write = (\<lambda>data. []),
      flate_Close = (\<lambda>data. [[4], [5]]),
      gzip_header = [31, 139, 8, 0, 0, 0, 0, 0, 0, 255],
      gzip_trailer = (\<lambda>data. [6]),
      url_Parse = (\<lambda>url. None)\<rparr>"

definition test_writer :: "int \<Rightarrow> string \<Rightarrow> (unit, unit) writerImpl" where
  "test_writer code status =
     \<lparr>hc = (\<lambda>req. Inr \<lparr>Response_StatusCode = code, Response_Status = status\<rparr>),
      targetURL = ''http://127.0.0.1:9090/api/v1/write'',
      gatherers = [()],
      format = JSON,
      encoding = Gzip,
      version = ''0.1.0''\<rparr>"

text \<open>The request that this writer hands to its transport for \<open>test_families\<close>.\<close>

definition test_request :: "unit Request" where
  "test_request =
     \<lparr>Request_ctx = (), Request_Method = ''POST'',
      Request_URL = ''http://127.0.0.1:9090/api/v1/write'',
      Request_Header =
        [(''X-Prometheus-Remote-Write-Version'', [''0.1.0'']),
         (''Content-Type'', [''application/json'']),
         (''Content-Encoding'', [''gzip''])],
      Request_Body = [31, 139, 8, 0, 0, 0, 0, 0, 0, 255, 4, 5, 6]\<rparr>"

section \<open>The adapter loops\<close>

text \<open>
  When the loop of \<open>getTimeseries\<close> returns, every metric it has passed was non-nil and
  its series stands at the metric's index; the entries before the start index are kept.
\<close>

lemma timeseries_loop_Returns:
  "timeseries_loop family i metrics ts = Returns ts' \<Longrightarrow> i + length metrics \<le> length ts \<Longrightarrow>
   length ts' = length ts
   \<and> (\<forall>k < length metrics. \<exists>metric. metrics ! k = Some metric
          \<and> ts' ! (i + k) = timeseries_of family metric)
   \<and> (\<forall>j < i. ts' ! j = ts ! j)"
proof (induction family i metrics ts rule: timeseries_loop.induct)
  case (1 family i ts)
  then show ?case by simp
next
  case (2 family i metrics ts)
  then show ?case by simp
next
  case (3 family i metric metrics ts)
  let ?x = "timeseries_of family metric"
  from "3.prems" have run: "timeseries_loop family (Suc i) metrics (ts[i := ?x]) = Returns ts'"
    and bound: "Suc i + length metrics \<le> length (ts[i := ?x])" and i: "i < length ts"
    by simp_all
  from "3.IH" [OF run bound]
  have len: "length ts' = length ts"
    and rest: "\<forall>k < length metrics. \<exists>m. metrics ! k = Some m
                 \<and> ts' ! (Suc i + k) = timeseries_of family m"
    and keep: "\<forall>j < Suc i. ts' ! j = ts[i := ?x] ! j"
    by simp_all
  have here: "ts' ! i = ?x"
    using keep i by simp
  have "\<exists>m. (Some metric # metrics) ! k = Some m \<and> ts' ! (i + k) = timeseries_of family m"
    if "k < length (Some metric # metrics)" for k
  proof (cases k)
    case 0
    then show ?thesis using here by simp
  next
    case (Suc k')
    then show ?thesis using rest that by simp
  qed
  moreover have "\<forall>j < i. ts' ! j = ts ! j"
    using keep by simp
  ultimately show ?case using len by blast
qed

lemma getTimeseries_Returns:
  assumes "getTimeseries family = Returns ts"
  shows "list_all2 (\<lambda>m t. \<exists>metric. m = Some metric \<and> t = timeseries_of family metric)
           (MetricFamily_GetMetric family) ts"
proof (cases "MetricFamily_GetMetric family = []")
  case True
  with assms show ?thesis by (simp add: getTimeseries_def)
next
  case False
  let ?ms = "MetricFamily_GetMetric family"
  from False assms
  have "timeseries_loop family 0 ?ms (replicate (length ?ms) zero_TimeSeries) = Returns ts"
    by (simp add: getTimeseries_def)
  from timeseries_loop_Returns [OF this]
  have "length ts = length ?ms"
    and "\<forall>k < length ?ms. \<exists>metric. ?ms ! k = Some metric \<and> ts ! k = timeseries_of family metric"
    by simp_all
  then show ?thesis by (simp add: list_all2_conv_all_nth)
qed

lemma nth_series:
  assumes "getTimeseries family = Returns ts" "i < length ts"
  shows "\<exists>metric. MetricFamily_GetMetric family ! i = Some metric
           \<and> ts ! i = timeseries_of family metric"
  using getTimeseries_Returns [OF assms(1)] assms(2)
  by (auto simp: list_all2_conv_all_nth)


section \<open>Labels\<close>



section \<open>Samples and histograms\<close>

lemma series_exclusive:
  "TimeSeries_Samples (timeseries_of family metric) = []
   \<or> TimeSeries_Histograms (timeseries_of family metric) = []"
  by (auto simp: timeseries_of_def payload_def Let_def split: option.splits)

lemma series_of_histogram:
  assumes "dto_Metric_Gauge metric = None" "dto_Metric_Counter metric = None"
    "dto_Metric_Untyped metric = None" "dto_Metric_Histogram metric = Some h"
  shows "TimeSeries_Samples (timeseries_of family metric) = []"
    and "TimeSeries_Histograms (timeseries_of family metric) = [convertHistogram h]"
  using assms by (simp_all add: timeseries_of_def payload_def Let_def)

lemma series_of_scalar:
  assumes "dto_Metric_Gauge metric \<noteq> None \<or> dto_Metric_Counter metric \<noteq> None
    \<or> dto_Metric_Untyped metric \<noteq> None"
  shows "TimeSeries_Histograms (timeseries_of family metric) = []"
  using assms by (auto simp: timeseries_of_def payload_def Let_def split: option.splits)

text \<open>
  Claim C4. In every wire time series that \<open>getTimeseries\<close> produces, the samples and the
  histogram entries are never both non-empty. An instance whose payload is a histogram
  (no gauge, counter or untyped value, and a histogram) has no sample and exactly one
  histogram entry; an instance with a scalar payload (a gauge, a counter or an untyped
  value) has no histogram entry.
\<close>

theorem samples_xor_histograms:
  assumes "getTimeseries family = Returns ts" and "i < length ts"
  shows "\<exists>metric. MetricFamily_GetMetric family ! i = Some metric
     \<and> (TimeSeries_Samples (ts ! i) = [] \<or> TimeSeries_Histograms (ts ! i) = [])
     \<and> (dto_Metric_Gauge metric = None \<and> dto_Metric_Counter metric = None
          \<and> dto_Metric_Untyped metric = None \<and> dto_Metric_Histogram metric \<noteq> None
        \<longrightarrow> TimeSeries_Samples (ts ! i) = [] \<and> length (TimeSeries_Histograms (ts ! i)) = 1)
     \<and> (dto_Metric_Gauge metric \<noteq> None \<or> dto_Metric_Counter metric \<noteq> None
          \<or> dto_Metric_Untyped metric \<noteq> None
        \<longrightarrow> TimeSeries_Histograms (ts ! i) = [])"
proof -
  from nth_series [OF assms] obtain metric
    where m: "MetricFamily_GetMetric family ! i = Some metric"
      and t: "ts ! i = timeseries_of family metric"
    by blast
  have "TimeSeries_Samples (ts ! i) = [] \<or> TimeSeries_Histograms (ts ! i) = []"
    unfolding t by (rule series_exclusive)
  moreover have "TimeSeries_Samples (ts ! i) = [] \<and> length (TimeSeries_Histograms (ts ! i)) = 1"
    if "dto_Metric_Gauge metric = None \<and> dto_Metric_Counter metric = None
          \<and> dto_Metric_Untyped metric = None \<and> dto_Metric_Histogram metric \<noteq> None"
  proof -
    from that obtain h where "dto_Metric_Histogram metric = Some h" by blast
    with that show ?thesis
      unfolding t by (simp add: series_of_histogram)
  qed
  moreover have "TimeSeries_Histograms (ts ! i) = []"
    if "dto_Metric_Gauge metric \<noteq> None \<or> dto_Metric_Counter metric \<noteq> None
          \<or> dto_Metric_Untyped metric \<noteq> None"
    unfolding t using that by (rule series_of_scalar)
  ultimately show ?thesis using m by blast
qed

theorem samples_xor_histograms_witness:
  "getTimeseries (test_family ''mixed'' 4 [Some test_gauge, Some test_histogram])
     = Returns [timeseries_of (test_family ''mixed'' 4 [Some test_gauge, Some test_histogram]) test_gauge,
                timeseries_of (test_family ''mixed'' 4 [Some test_gauge, Some test_histogram]) test_histogram]
   \<and> dto_Metric_Gauge test_gauge \<noteq> None
   \<and> length (TimeSeries_Samples
        (timeseries_of (test_family ''mixed'' 4 [Some test_gauge, Some test_histogram]) test_gauge)) = 1
   \<and> TimeSeries_Histograms
        (timeseries_of (test_family ''mixed'' 4 [Some test_gauge, Some test_histogram]) test_gauge) = []
   \<and> dto_Metric_Gauge test_histogram = None \<and> dto_Metric_Counter test_histogram = None
   \<and> dto_Metric_Untyped test_histogram = None \<and> dto_Metric_Histogram test_histogram \<noteq> None
   \<and> TimeSeries_Samples
        (timeseries_of (test_family ''mixed'' 4 [Some test_gauge, Some test_histogram]) test_histogram) = []
   \<and> length (TimeSeries_Histograms
        (timeseries_of (test_family ''mixed'' 4 [Some test_gauge, Some test_histogram]) test_histogram)) = 1"
proof -
  let ?f = "test_family ''mixed'' 4 [Some test_gauge, Some test_histogram]"
  let ?ts = "[timeseries_of ?f test_gauge, timeseries_of ?f test_histogram]"
  have h: "getTimeseries ?f = Returns ?ts"
    by (simp add: getTimeseries_def test_family_def MetricFamily_GetMetric_def slice_getter_def)
  have m: "MetricFamily_GetMetric ?f ! 0 = Some test_gauge"
    "MetricFamily_GetMetric ?f ! 1 = Some test_histogram"
    by (simp_all add: test_family_def MetricFamily_GetMetric_def slice_getter_def)
  have g: "dto_Metric_Gauge test_gauge \<noteq> None"
    by (simp add: test_gauge_def empty_Metric_def)
  have hi: "dto_Metric_Gauge test_histogram = None \<and> dto_Metric_Counter test_histogram = None
     \<and> dto_Metric_Untyped test_histogram = None \<and> dto_Metric_Histogram test_histogram \<noteq> None"
    by (simp add: test_histogram_def empty_Metric_def)
  have s: "length (TimeSeries_Samples (timeseries_of ?f test_gauge)) = 1"
    by code_simp
  have i0: "0 < length ?ts" and i1: "1 < length ?ts"
    by simp_all
  show ?thesis
    using h g hi s m samples_xor_histograms [OF h i0] samples_xor_histograms [OF h i1]
    by auto
qed

section \<open>Exemplars of scalars\<close>

text \<open>
  A scalar instance yields one sample, with the scalar's value and the instance's
  timestamp. A gauge and an untyped value yield no exemplar; a counter yields the
  conversion of its exemplar pointer, whatever that pointer is.
\<close>

lemma series_of_gauge:
  assumes "dto_Metric_Gauge metric = Some g"
  shows "TimeSeries_Samples (timeseries_of family metric) =
           [\<lparr>Sample_Value = (case dto_Gauge_Value g of None \<Rightarrow> 0 | Some v \<Rightarrow> v),
             Sample_Timestamp = Metric_GetTimestampMs metric\<rparr>]"
    and "TimeSeries_Exemplars (timeseries_of family metric) = []"
  using assms by (simp_all add: timeseries_of_def payload_def getter_def)

lemma series_of_counter:
  assumes "dto_Metric_Gauge metric = None" and "dto_Metric_Counter metric = Some c"
  shows "TimeSeries_Samples (timeseries_of family metric) =
           [\<lparr>Sample_Value = (case dto_Counter_Value c of None \<Rightarrow> 0 | Some v \<Rightarrow> v),
             Sample_Timestamp = Metric_GetTimestampMs metric\<rparr>]"
    and "TimeSeries_Exemplars (timeseries_of family metric) =
           [convertExemplar (dto_Counter_Exemplar c)]"
  using assms by (simp_all add: timeseries_of_def payload_def getter_def)

lemma series_of_untyped:
  assumes "dto_Metric_Gauge metric = None" and "dto_Metric_Counter metric = None"
    and "dto_Metric_Untyped metric = Some u"
  shows "TimeSeries_Samples (timeseries_of family metric) =
           [\<lparr>Sample_Value = (case dto_Untyped_Value u of None \<Rightarrow> 0 | Some v \<Rightarrow> v),
             Sample_Timestamp = Metric_GetTimestampMs metric\<rparr>]"
    and "TimeSeries_Exemplars (timeseries_of family metric) = []"
  using assms by (simp_all add: timeseries_of_def payload_def getter_def)

text \<open>
  Claim C3 says that the series of a scalar instance has exactly one sample, with the
  scalar's value and the instance's timestamp, and has one converted exemplar exactly when
  the scalar carries an exemplar. The type assertion to \<open>hasExemplar\<close> asks for the method,
  not for a non-nil exemplar: for the counter of the test, which carries no exemplar, the
  series has the one sample and also one exemplar, the conversion of the nil pointer (no
  labels, value 0, timestamp 0).
\<close>

theorem counter_without_exemplar:
  "map_option dto_Counter_Exemplar (dto_Metric_Counter test_counter) = Some None
   \<and> getTimeseries (test_family ''foo_bar_baz'' 0 [Some test_counter]) =
       Returns
         [\<lparr>TimeSeries_Labels = [\<lparr>Label_Name = ''__name__'', Label_Value = ''foo_bar_baz''\<rparr>],
           TimeSeries_Samples =
             [\<lparr>Sample_Value = 0x3FE0000000000000, Sample_Timestamp = 0\<rparr>],
           TimeSeries_Exemplars =
             [\<lparr>Exemplar_Labels = [], Exemplar_Value = 0, Exemplar_Timestamp = 0\<rparr>],
           TimeSeries_Histograms = []\<rparr>]"
  by code_simp

section \<open>Exemplar timestamps\<close>








section \<open>The count of series sent\<close>

text \<open>
  The loop over the families appends, for each family, as many series as the family has
  metrics.
\<close>

lemma families_loop_length:
  "families_loop ts metadata fams = Returns (ts', metadata') \<Longrightarrow>
   length ts' = length ts + (\<Sum>f\<leftarrow>fams. length (MetricFamily_GetMetric f))"
proof (induction fams arbitrary: ts metadata)
  case Nil
  then show ?case by simp
next
  case (Cons f fams)
  from Cons.prems obtain series where s: "getTimeseries f = Returns series"
    and run: "families_loop (ts @ series) (metadata @ [metadata_of f]) fams = Returns (ts', metadata')"
    by (auto split: outcome.splits)
  have "length series = length (MetricFamily_GetMetric f)"
    using getTimeseries_Returns [OF s] by (simp add: list_all2_lengthD)
  with Cons.IH [OF run] show ?case by simp
qed

text \<open>
  A call that returns no error has gathered without error, and either there was no
  family or the loop over the families has returned and the count is the number of its
  series.
\<close>

lemma WriteMetrics_success:
  assumes "snd (WriteMetrics W w ctx) = Returns (n, None)"
  shows "\<exists>fams. Gatherers_Gather W (gatherers w) = Inr fams
           \<and> (fams = [] \<and> n = 0
               \<or> (\<exists>ts metadata. families_loop [] [] fams = Returns (ts, metadata)
                     \<and> n = int (length ts)))"
  using assms
  by (auto simp: WriteMetrics_def Let_def
      split: option.splits sum.splits outcome.splits if_splits prod.splits)

text \<open>
  Claim C1. Whenever \<open>WriteMetrics\<close> returns without an error, the integer it returns is
  the total number of metric instances of all gathered families: one series for each
  instance, not for each family. A family without instances adds no series.
\<close>

theorem WriteMetrics_count:
  assumes "snd (WriteMetrics W w ctx) = Returns (n, None)"
  shows "\<exists>fams. Gatherers_Gather W (gatherers w) = Inr fams
           \<and> n = int (\<Sum>f\<leftarrow>fams. length (MetricFamily_GetMetric f))
           \<and> (\<forall>f \<in> set fams. MetricFamily_GetMetric f = [] \<longrightarrow> getTimeseries f = Returns [])"
proof -
  from WriteMetrics_success [OF assms] obtain fams
    where g: "Gatherers_Gather W (gatherers w) = Inr fams"
      and c: "fams = [] \<and> n = 0
               \<or> (\<exists>ts metadata. families_loop [] [] fams = Returns (ts, metadata)
                     \<and> n = int (length ts))"
    by blast
  from c have "n = int (\<Sum>f\<leftarrow>fams. length (MetricFamily_GetMetric f))"
  proof
    assume "fams = [] \<and> n = 0"
    then show ?thesis by simp
  next
    assume "\<exists>ts metadata. families_loop [] [] fams = Returns (ts, metadata) \<and> n = int (length ts)"
    then obtain ts metadata
      where "families_loop [] [] fams = Returns (ts, metadata)" and "n = int (length ts)"
      by blast
    then show ?thesis
      using families_loop_length [of "[]" "[]" fams ts metadata] by simp
  qed
  moreover have "\<forall>f \<in> set fams. MetricFamily_GetMetric f = [] \<longrightarrow> getTimeseries f = Returns []"
    by (simp add: getTimeseries_def)
  ultimately show ?thesis using g by blast
qed

theorem WriteMetrics_count_witness:
  "snd (WriteMetrics (test_world (test_family ''empty'' 0 [] # test_families))
          (test_writer 200 ''200 OK'') (Some ())) = Returns (3, None)
   \<and> (\<exists>fams. Gatherers_Gather (test_world (test_family ''empty'' 0 [] # test_families))
                (gatherers (test_writer 200 ''200 OK'')) = Inr fams
           \<and> 3 = int (\<Sum>f\<leftarrow>fams. length (MetricFamily_GetMetric f))
           \<and> (\<forall>f \<in> set fams. MetricFamily_GetMetric f = [] \<longrightarrow> getTimeseries f = Returns []))
   \<and> length (test_family ''empty'' 0 [] # test_families) = 4
   \<and> MetricFamily_GetMetric (test_family ''empty'' 0 []) = []"
proof -
  have h: "snd (WriteMetrics (test_world (test_family ''empty'' 0 [] # test_families))
          (test_writer 200 ''200 OK'') (Some ())) = Returns (3, None)"
    by code_simp
  have l: "length (test_family ''empty'' 0 [] # test_families) = 4"
    by (simp add: test_families_def)
  have e: "MetricFamily_GetMetric (test_family ''empty'' 0 []) = []"
    by (simp add: test_family_def MetricFamily_GetMetric_def slice_getter_def)
  show ?thesis
    using h WriteMetrics_count [OF h] l e by blast
qed

section \<open>Failures\<close>

text \<open>
  Claim C2. On every input, whichever branch fails (nil context, no gatherers, a failed
  gather, serialization, compression, request construction or transport, a response
  outside 2xx), the count returned with the error is 0: \<open>WriteMetrics\<close> never returns a
  nonzero count together with an error.
\<close>

theorem WriteMetrics_failure_zero:
  assumes "snd (WriteMetrics W w ctx) = Returns (n, Some err)"
  shows "n = 0"
  using assms
  by (auto simp: WriteMetrics_def Let_def
      split: option.splits sum.splits outcome.splits if_splits prod.splits)

theorem WriteMetrics_failure_zero_witness:
  "snd (WriteMetrics (test_world test_families) (test_writer 200 ''200 OK'') None)
     = Returns (0, Some ErrNilContext)
   \<and> snd (WriteMetrics (test_world test_families)
            ((test_writer 200 ''200 OK'')\<lparr>gatherers := []\<rparr>) (Some ()))
     = Returns (0, Some ErrNoGatherersDefined)
   \<and> snd (WriteMetrics
            ((test_world test_families)
               \<lparr>Gatherers_Gather := (\<lambda>gs. Inl (Foreign ''collect failed''))\<rparr>)
            (test_writer 200 ''200 OK'') (Some ()))
     = Returns (0, Some (Foreign ''collect failed''))
   \<and> snd (WriteMetrics (test_world test_families)
            ((test_writer 200 ''200 OK'')\<lparr>format := 7\<rparr>) (Some ()))
     = Returns (0, Some (Errorf ''unrecognized format %INVALID!(7)''))
   \<and> snd (WriteMetrics (test_world test_families)
            ((test_writer 200 ''200 OK'')\<lparr>encoding := 9\<rparr>) (Some ()))
     = Returns (0, Some (Errorf ''unsupported encoding %INVALID!(9)''))
   \<and> snd (WriteMetrics
            ((test_world test_families)\<lparr>url_Parse := (\<lambda>url. Some (Foreign ''bad url''))\<rparr>)
            (test_writer 200 ''200 OK'') (Some ()))
     = Returns (0, Some (Foreign ''bad url''))
   \<and> snd (WriteMetrics (test_world test_families)
            ((test_writer 200 ''200 OK'')\<lparr>hc := (\<lambda>req. Inl (Foreign ''connection refused''))\<rparr>)
            (Some ()))
     = Returns (0, Some (Foreign ''connection refused''))
   \<and> snd (WriteMetrics (test_world test_families)
            (test_writer 500 ''500 Internal Server Error'') (Some ()))
     = Returns (0, Some (Errorf ''expected 2xx HTTP code, but got 500 Internal Server Error''))"
proof -
  have shape: "r = Returns (0, Some err)" if "r = Returns (n, Some err)" and "n = 0"
    for r :: "(int \<times> error option) outcome" and n err
    using that by simp
  have nil_context:
    "snd (WriteMetrics (test_world test_families) (test_writer 200 ''200 OK'') None)
       = Returns (0, Some ErrNilContext)"
    by code_simp
  have no_gatherers:
    "snd (WriteMetrics (test_world test_families)
            ((test_writer 200 ''200 OK'')\<lparr>gatherers := []\<rparr>) (Some ()))
       = Returns (0, Some ErrNoGatherersDefined)"
    by code_simp
  have gather:
    "snd (WriteMetrics
            ((test_world test_families)
               \<lparr>Gatherers_Gather := (\<lambda>gs. Inl (Foreign ''collect failed''))\<rparr>)
            (test_writer 200 ''200 OK'') (Some ()))
       = Returns (0, Some (Foreign ''collect failed''))"
    by code_simp
  have marshal:
    "snd (WriteMetrics (test_world test_families)
            ((test_writer 200 ''200 OK'')\<lparr>format := 7\<rparr>) (Some ()))
       = Returns (0, Some (Errorf ''unrecognized format %INVALID!(7)''))"
    by code_simp
  have compress:
    "snd (WriteMetrics (test_world test_families)
            ((test_writer 200 ''200 OK'')\<lparr>encoding := 9\<rparr>) (Some ()))
       = Returns (0, Some (Errorf ''unsupported encoding %INVALID!(9)''))"
    by code_simp
  have request:
    "snd (WriteMetrics
            ((test_world test_families)\<lparr>url_Parse := (\<lambda>url. Some (Foreign ''bad url''))\<rparr>)
            (test_writer 200 ''200 OK'') (Some ()))
       = Returns (0, Some (Foreign ''bad url''))"
    by code_simp
  have transport:
    "snd (WriteMetrics (test_world test_families)
            ((test_writer 200 ''200 OK'')\<lparr>hc := (\<lambda>req. Inl (Foreign ''connection refused''))\<rparr>)
            (Some ()))
       = Returns (0, Some (Foreign ''connection refused''))"
    by code_simp
  have status:
    "snd (WriteMetrics (test_world test_families)
            (test_writer 500 ''500 Internal Server Error'') (Some ()))
       = Returns (0, Some (Errorf ''expected 2xx HTTP code, but got 500 Internal Server Error''))"
    by code_simp
  show ?thesis
    using shape [OF nil_context WriteMetrics_failure_zero [OF nil_context]]
      shape [OF no_gatherers WriteMetrics_failure_zero [OF no_gatherers]]
      shape [OF gather WriteMetrics_failure_zero [OF gather]]
      shape [OF marshal WriteMetrics_failure_zero [OF marshal]]
      shape [OF compress WriteMetrics_failure_zero [OF compress]]
      shape [OF request WriteMetrics_failure_zero [OF request]]
      shape [OF transport WriteMetrics_failure_zero [OF transport]]
      shape [OF status WriteMetrics_failure_zero [OF status]]
    by blast
qed

text \<open>
  Claim C5. If the gather succeeds with no metric family, \<open>WriteMetrics\<close> returns 0 and no
  error, and the gather is the only call it has made: nothing is serialized, compressed
  or sent.
\<close>

theorem WriteMetrics_empty_gather:
  assumes "gatherers w \<noteq> []" and "Gatherers_Gather W (gatherers w) = Inr []"
  shows "WriteMetrics W w (Some c) = ([Ev_Gather], Returns (0, None))"
  using assms by (simp add: WriteMetrics_def)

theorem WriteMetrics_empty_gather_witness:
  "gatherers (test_writer 200 ''200 OK'') \<noteq> []
   \<and> Gatherers_Gather (test_world []) (gatherers (test_writer 200 ''200 OK'')) = Inr []
   \<and> WriteMetrics (test_world []) (test_writer 200 ''200 OK'') (Some ())
       = ([Ev_Gather], Returns (0, None))"
proof -
  have h1: "gatherers (test_writer 200 ''200 OK'') \<noteq> []"
    by (simp add: test_writer_def)
  have h2: "Gatherers_Gather (test_world []) (gatherers (test_writer 200 ''200 OK'')) = Inr []"
    by (simp add: test_world_def)
  show ?thesis
    using h1 h2 WriteMetrics_empty_gather [OF h1 h2] by simp
qed

text \<open>
  Claim C6. If the transport answers with a response whose status code is outside
  \<open>[200, 299]\<close>, \<open>WriteMetrics\<close> returns 0 and an error whose message ends with the status
  text of the response; for a status code within \<open>[200, 299]\<close> it returns no error.
\<close>

theorem WriteMetrics_status:
  assumes "Ev_Do req (Inr resp) \<in> set (fst (WriteMetrics W w ctx))"
  shows "(Response_StatusCode resp < 200 \<or> Response_StatusCode resp > 299 \<longrightarrow>
            (\<exists>err. snd (WriteMetrics W w ctx) = Returns (0, Some err)
               \<and> Error err = ''expected 2xx HTTP code, but got '' @ Response_Status resp))
       \<and> (200 \<le> Response_StatusCode resp \<and> Response_StatusCode resp \<le> 299 \<longrightarrow>
            (\<exists>n. snd (WriteMetrics W w ctx) = Returns (n, None)))"
  using assms
  by (auto simp: WriteMetrics_def Let_def
      split: option.splits sum.splits outcome.splits if_splits prod.splits)

theorem WriteMetrics_status_witness:
  "Ev_Do test_request
      (Inr \<lparr>Response_StatusCode = 500, Response_Status = ''500 Internal Server Error''\<rparr>)
     \<in> set (fst (WriteMetrics (test_world test_families)
                   (test_writer 500 ''500 Internal Server Error'') (Some ())))
   \<and> (\<exists>err. snd (WriteMetrics (test_world test_families)
                    (test_writer 500 ''500 Internal Server Error'') (Some ()))
               = Returns (0, Some err)
            \<and> Error err = ''expected 2xx HTTP code, but got 500 Internal Server Error'')
   \<and> Ev_Do test_request (Inr \<lparr>Response_StatusCode = 200, Response_Status = ''200 OK''\<rparr>)
     \<in> set (fst (WriteMetrics (test_world test_families) (test_writer 200 ''200 OK'') (Some ())))
   \<and> (\<exists>n. snd (WriteMetrics (test_world test_families) (test_writer 200 ''200 OK'') (Some ()))
             = Returns (n, None))"
proof -
  let ?bad = "\<lparr>Response_StatusCode = 500, Response_Status = ''500 Internal Server Error''\<rparr>"
  let ?ok = "\<lparr>Response_StatusCode = 200, Response_Status = ''200 OK''\<rparr>"
  have h1: "Ev_Do test_request (Inr ?bad)
     \<in> set (fst (WriteMetrics (test_world test_families)
                   (test_writer 500 ''500 Internal Server Error'') (Some ())))"
    by code_simp
  have h2: "Ev_Do test_request (Inr ?ok)
     \<in> set (fst (WriteMetrics (test_world test_families) (test_writer 200 ''200 OK'') (Some ())))"
    by code_simp
  show ?thesis
    using h1 h2 WriteMetrics_status [OF h1] WriteMetrics_status [OF h2] by simp
qed

section \<open>Compression\<close>

text \<open>
  Writing blocks through a writer without a pending error appends them all to the
  buffer and leaves no error, so the first \<open>Write\<close> of a new gzip writer succeeds.
\<close>

lemma write_blocks_appends:
  "Writer_err z = None \<Longrightarrow> write_blocks z bs = z\<lparr>Writer_w := Writer_w z @ concat bs\<rparr>"
  by (induction bs arbitrary: z) (simp_all add: Buffer_Write_def)

lemma gzip_Write_succeeds:
  "gzip_Write W (gzip_NewWriter buf) p =
     (\<lparr>Writer_w = buf @ gzip_header W @ concat (flate_Write W p),
       Writer_wroteHeader = True, Writer_err = None\<rparr>, None)"
  by (simp add: gzip_Write_def gzip_NewWriter_def write_blocks_appends Buffer_Write_def Let_def)

text \<open>
  Claim C8. For every byte sequence, \<open>Compress\<close> with \<open>None\<close> returns the data unchanged with
  no error, and \<open>Compress\<close> with \<open>Snappy\<close> returns no error either.
\<close>

theorem Compress_None_Snappy:
  "Compress W None_Compression data = Inr data
   \<and> (\<exists>out. Compress W Snappy data = Inr out)"
  by (simp add: Compress_def None_Compression_def Snappy_def)

text \<open>
  Claim C10. For every byte sequence, \<open>Compress\<close> with \<open>Gzip\<close> returns no error: the write
  goes into an in-memory buffer, whose \<open>Write\<close> has no failure, so the error branch is
  never taken and the result is the header, the compressed blocks and the trailer.
  With C8, each of the three named variants succeeds on every input.
\<close>

theorem Compress_Gzip_succeeds:
  "Compress W Gzip data =
     Inr (gzip_header W @ concat (flate_Write W data) @ concat (flate_Close W data) @
          gzip_trailer W data)
   \<and> (\<exists>out. Compress W Snappy data = Inr out)
   \<and> (\<exists>out. Compress W None_Compression data = Inr out)"
  by (simp add: Compress_def None_Compression_def Snappy_def Gzip_def gzip_Write_succeeds
      gzip_Close_def write_blocks_appends)

end
